theory Spec2Isabelle
  imports Complex_Main "HOL-Library.Monad_Syntax"
begin

section \<open>Metro ridership impact calculator (ridership.py)\<close>

text \<open>
  The script reads eight widget values, computes one results dictionary with
  \<open>calculate_ridership_impact\<close> and builds the list \<open>scenario_results\<close> in a loop
  over the \<open>scenarios\<close> dictionary. The widget values are module-level variables that
  the function reads; here they are the fields of the record \<open>inputs\<close>, passed
  explicitly.

  Numbers: the widgets are created with integer bounds and defaults, so they return
  Python ints (\<open>int\<close> here). Every other quantity is a Python float. Floats are modelled
  as exact reals: the model follows the arithmetic of the source operation by
  operation, but without the rounding of IEEE doubles, so statements about equality of
  float results are statements about the exact values.

  A dictionary subscript raises KeyError on a missing key. Dictionaries are maps and a
  function that subscripts one returns an \<open>option\<close>, where \<open>None\<close> stands for the
  raised KeyError.
\<close>

subsection \<open>Constants and inputs\<close>

text \<open>Lines 18-24.\<close>

definition ELASTICITIES :: "string \<rightharpoonup> real" where
  "ELASTICITIES = map_of
     [(''feeder_frequency'', 0.5),
      (''last_mile_wait_time'', - 0.8),
      (''service_availability'', 0.3),
      (''feeder_cost'', - 0.4),
      (''integration_quality'', 0.6)]"

text \<open>Lines 31-81: the values returned by the sidebar widgets.\<close>

record inputs =
  current_ridership :: int
  baseline_frequency :: int
  baseline_wait :: int
  freq_improvement :: int
  wait_reduction :: int
  coverage_improvement :: int
  cost_reduction :: int
  integration_improvement :: int

text \<open>
  The ranges that the widgets enforce (lines 38-81). \<open>number_input\<close> for
  \<open>current_ridership\<close> has no bounds.
\<close>

definition in_slider_ranges :: "inputs \<Rightarrow> bool" where
  "in_slider_ranges p =
     (1 \<le> baseline_frequency p \<and> baseline_frequency p \<le> 20 \<and>
      2 \<le> baseline_wait p \<and> baseline_wait p \<le> 30 \<and>
      0 \<le> freq_improvement p \<and> freq_improvement p \<le> 200 \<and>
      0 \<le> wait_reduction p \<and> wait_reduction p \<le> 80 \<and>
      0 \<le> coverage_improvement p \<and> coverage_improvement p \<le> 100 \<and>
      0 \<le> cost_reduction p \<and> cost_reduction p \<le> 50 \<and>
      0 \<le> integration_improvement p \<and> integration_improvement p \<le> 100)"

text \<open>The widgets' default values.\<close>

definition default_inputs :: inputs where
  "default_inputs =
     \<lparr>current_ridership = 100000, baseline_frequency = 4, baseline_wait = 12,
      freq_improvement = 50, wait_reduction = 30, coverage_improvement = 25,
      cost_reduction = 15, integration_improvement = 40\<rparr>"

text \<open>Python's \<open>int(x)\<close> on a float: truncation toward zero.\<close>

definition py_int :: "real \<Rightarrow> int" where
  "py_int x = (if 0 \<le> x then \<lfloor>x\<rfloor> else \<lceil>x\<rceil>)"

subsection \<open>calculate_ridership_impact\<close>

text \<open>
  The body of the function in the order of its three commented parts. Lines 86-90,
  the five local variables \<open>freq_impact\<close>, \<open>wait_impact\<close>, \<open>coverage_impact\<close>,
  \<open>cost_impact\<close>, \<open>integration_impact\<close>, in this order:
\<close>

definition individual_impacts :: "inputs \<Rightarrow> (real \<times> real \<times> real \<times> real \<times> real) option" where
  "individual_impacts p = do {
     e_freq \<leftarrow> ELASTICITIES ''feeder_frequency'';
     let freq = (real_of_int (freq_improvement p) / 100) * e_freq;
     e_wait \<leftarrow> ELASTICITIES ''last_mile_wait_time'';
     let wait = (real_of_int (wait_reduction p) / 100) * \<bar>e_wait\<bar>;
     e_cov \<leftarrow> ELASTICITIES ''service_availability'';
     let coverage = (real_of_int (coverage_improvement p) / 100) * e_cov;
     e_cost \<leftarrow> ELASTICITIES ''feeder_cost'';
     let cost = (real_of_int (cost_reduction p) / 100) * \<bar>e_cost\<bar>;
     e_int \<leftarrow> ELASTICITIES ''integration_quality'';
     let integration = (real_of_int (integration_improvement p) / 100) * e_int;
     Some (freq, wait, coverage, cost, integration)
   }"

text \<open>Line 93, the value of \<open>total_impact\<close> before the \<open>if\<close>:\<close>

definition total_compound_effect :: "real \<times> real \<times> real \<times> real \<times> real \<Rightarrow> real" where
  "total_compound_effect = (\<lambda>(freq, wait, coverage, cost, integration).
     freq + wait + coverage + cost + integration)"

text \<open>Lines 96-97, the value of \<open>total_impact\<close> after the \<open>if\<close>:\<close>

definition diminishing_returns :: "real \<Rightarrow> real" where
  "diminishing_returns total_impact =
     (if total_impact > 0.5 then 0.5 + (total_impact - 0.5) * 0.7 else total_impact)"

text \<open>The returned dictionary (lines 103-112), with its keys as field names.\<close>

record impact_result =
  freq_impact :: real
  wait_impact :: real
  coverage_impact :: real
  cost_impact :: real
  integration_impact :: real
  total_percentage :: real
  new_ridership :: int
  absolute_increase :: int

text \<open>
  Lines 84-112. \<open>new_ridership\<close> and \<open>absolute_increase\<close> are floats until the
  \<open>return\<close>, which truncates each of them on its own.
\<close>

definition calculate_ridership_impact :: "inputs \<Rightarrow> impact_result option" where
  "calculate_ridership_impact p = do {
     (freq, wait, coverage, cost, integration) \<leftarrow> individual_impacts p;
     let total_impact = total_compound_effect (freq, wait, coverage, cost, integration);
     let total_impact = diminishing_returns total_impact;
     let new = real_of_int (current_ridership p) * (1 + total_impact);
     let increase = new - real_of_int (current_ridership p);
     let percentage_increase = total_impact * 100;
     Some \<lparr>freq_impact = freq * 100,
           wait_impact = wait * 100,
           coverage_impact = coverage * 100,
           cost_impact = cost * 100,
           integration_impact = integration * 100,
           total_percentage = percentage_increase,
           new_ridership = py_int new,
           absolute_increase = py_int increase\<rparr>
   }"

subsection \<open>Scenario comparison\<close>

text \<open>Lines 190-195. The dictionary is iterated in insertion order, so it is a list.\<close>

definition scenarios :: "(string \<times> int) list" where
  "scenarios =
     [(''Current'', 0),
      (''Basic Improvement'', 15),
      (''Moderate Improvement'', 35),
      (''Comprehensive Improvement'', 60)]"

text \<open>
  One appended row (lines 204-208); the key \<open>% Increase\<close> is the field \<open>Increase\<close>.
\<close>

record scenario_row =
  Scenario :: string
  Ridership :: int
  Increase :: real

text \<open>
  The loop body (lines 200-208). \<open>temp_results\<close> is read at the keys
  \<open>total_percentage\<close> and \<open>new_ridership\<close> only, so it is the pair of these two
  values: taken from the call of \<open>calculate_ridership_impact\<close> for the scenario
  named Current, from the two-key dictionary literal otherwise.
\<close>

definition scenario_body :: "inputs \<Rightarrow> string \<times> int \<Rightarrow> scenario_row option" where
  "scenario_body p = (\<lambda>(scenario, improvement). do {
     temp_results \<leftarrow>
       (if scenario = ''Current''
        then do {
          r \<leftarrow> calculate_ridership_impact p;
          Some (total_percentage r, new_ridership r)
        }
        else Some (real_of_int improvement * 0.4,
                   py_int (real_of_int (current_ridership p)
                             * (1 + real_of_int improvement * 0.004))));
     Some \<lparr>Scenario = scenario,
           Ridership = (if scenario \<noteq> ''Current'' then snd temp_results
                        else current_ridership p),
           Increase = (if scenario \<noteq> ''Current'' then fst temp_results else 0)\<rparr>
   })"

text \<open>The \<open>for\<close> loop (lines 197-208), appending to the list built so far.\<close>

fun scenario_loop ::
  "inputs \<Rightarrow> (string \<times> int) list \<Rightarrow> scenario_row list \<Rightarrow> scenario_row list option" where
  "scenario_loop p [] acc = Some acc"
| "scenario_loop p (item # items) acc = do {
     row \<leftarrow> scenario_body p item;
     scenario_loop p items (acc @ [row])
   }"

definition scenario_results :: "inputs \<Rightarrow> scenario_row list option" where
  "scenario_results p = scenario_loop p scenarios []"

subsection \<open>Observations used in the statements\<close>

text \<open>
  The value of the local variable \<open>total_impact\<close> after line 93, before the
  \<open>if\<close> of line 96 reassigns it.
\<close>

definition unclamped_total_impact :: "inputs \<Rightarrow> real option" where
  "unclamped_total_impact p = map_option total_compound_effect (individual_impacts p)"

text \<open>
  Both calls return, and the second reports a \<open>total_percentage\<close> that is not below
  the first.
\<close>

definition percentage_le :: "inputs \<Rightarrow> inputs \<Rightarrow> bool" where
  "percentage_le p q =
     (case (calculate_ridership_impact p, calculate_ridership_impact q) of
        (Some r, Some r') \<Rightarrow> total_percentage r \<le> total_percentage r'
      | _ \<Rightarrow> False)"

text \<open>
  The sum of the five impacts with the table's coefficients written out; it is shown
  below to be the value that line 93 computes.
\<close>

definition linear_total :: "inputs \<Rightarrow> real" where
  "linear_total p =
     real_of_int (freq_improvement p) / 100 * 0.5
     + real_of_int (wait_reduction p) / 100 * 0.8
     + real_of_int (coverage_improvement p) / 100 * 0.3
     + real_of_int (cost_reduction p) / 100 * 0.4
     + real_of_int (integration_improvement p) / 100 * 0.6"

section \<open>What the functions compute\<close>

text \<open>
  Every subscript of \<open>ELASTICITIES\<close> uses a key of the table, so no call raises, and
  the results are the following closed forms.
\<close>

lemma individual_impacts_eq:
  "individual_impacts p = Some
     (real_of_int (freq_improvement p) / 100 * 0.5,
      real_of_int (wait_reduction p) / 100 * 0.8,
      real_of_int (coverage_improvement p) / 100 * 0.3,
      real_of_int (cost_reduction p) / 100 * 0.4,
      real_of_int (integration_improvement p) / 100 * 0.6)"
  by (simp add: individual_impacts_def ELASTICITIES_def)

lemma unclamped_eq: "unclamped_total_impact p = Some (linear_total p)"
  by (simp add: unclamped_total_impact_def individual_impacts_eq total_compound_effect_def
      linear_total_def)

lemma calculate_eq:
  "calculate_ridership_impact p = Some
     \<lparr>freq_impact = real_of_int (freq_improvement p) / 100 * 0.5 * 100,
      wait_impact = real_of_int (wait_reduction p) / 100 * 0.8 * 100,
      coverage_impact = real_of_int (coverage_improvement p) / 100 * 0.3 * 100,
      cost_impact = real_of_int (cost_reduction p) / 100 * 0.4 * 100,
      integration_impact = real_of_int (integration_improvement p) / 100 * 0.6 * 100,
      total_percentage = diminishing_returns (linear_total p) * 100,
      new_ridership =
        py_int (real_of_int (current_ridership p) * (1 + diminishing_returns (linear_total p))),
      absolute_increase =
        py_int (real_of_int (current_ridership p) * (1 + diminishing_returns (linear_total p))
                - real_of_int (current_ridership p))\<rparr>"
  by (simp add: calculate_ridership_impact_def individual_impacts_eq total_compound_effect_def
      linear_total_def Let_def)

lemma py_int_of_int: "py_int (real_of_int n) = n"
  by (simp add: py_int_def)

lemma diminishing_returns_mono: "x \<le> y \<Longrightarrow> diminishing_returns x \<le> diminishing_returns y"
  unfolding diminishing_returns_def by (auto simp: field_simps)

lemma diminishing_returns_nonneg: "0 \<le> x \<Longrightarrow> 0 \<le> diminishing_returns x"
  by (simp add: diminishing_returns_def)

lemma diminishing_returns_sign: "0 \<le> diminishing_returns x \<longleftrightarrow> 0 \<le> x"
  by (simp add: diminishing_returns_def)

lemma py_int_increase:
  assumes "0 \<le> t"
  shows "py_int (real_of_int c * (1 + t) - real_of_int c) = py_int (real_of_int c * (1 + t)) - c"
proof (cases "0 \<le> c")
  case True
  with assms have "0 \<le> real_of_int c * (1 + t)" "0 \<le> real_of_int c * (1 + t) - real_of_int c"
    by (simp_all add: algebra_simps)
  then show ?thesis
    by (simp add: py_int_def)
next
  case False
  then have c: "real_of_int c < 0" by simp
  with assms have neg: "real_of_int c * (1 + t) < 0"
    by (simp add: mult_less_0_iff)
  show ?thesis
  proof (cases "t = 0")
    case True
    then show ?thesis by (simp add: py_int_def)
  next
    case False
    with assms c have "real_of_int c * t < 0"
      by (simp add: mult_less_0_iff)
    then have "real_of_int c * (1 + t) - real_of_int c < 0"
      by (simp add: algebra_simps)
    with neg show ?thesis
      by (simp add: py_int_def)
  qed
qed

lemma py_int_grows:
  assumes "0 \<le> c" "0 \<le> t"
  shows "c \<le> py_int (real_of_int c * (1 + t))"
proof -
  from assms have "real_of_int c * 1 \<le> real_of_int c * (1 + t)"
    by (intro mult_left_mono) simp_all
  moreover from assms have "0 \<le> real_of_int c * (1 + t)" by simp
  ultimately show ?thesis
    by (simp add: py_int_def le_floor_iff)
qed

lemma linear_total_nonneg:
  assumes "0 \<le> freq_improvement p" "0 \<le> wait_reduction p" "0 \<le> coverage_improvement p"
    "0 \<le> cost_reduction p" "0 \<le> integration_improvement p"
  shows "0 \<le> linear_total p"
  using assms by (simp add: linear_total_def)

lemma linear_total_mono:
  assumes "freq_improvement p \<le> freq_improvement q" "wait_reduction p \<le> wait_reduction q"
    "coverage_improvement p \<le> coverage_improvement q" "cost_reduction p \<le> cost_reduction q"
    "integration_improvement p \<le> integration_improvement q"
  shows "linear_total p \<le> linear_total q"
proof -
  from assms have "real_of_int (freq_improvement p) \<le> real_of_int (freq_improvement q)"
    "real_of_int (wait_reduction p) \<le> real_of_int (wait_reduction q)"
    "real_of_int (coverage_improvement p) \<le> real_of_int (coverage_improvement q)"
    "real_of_int (cost_reduction p) \<le> real_of_int (cost_reduction q)"
    "real_of_int (integration_improvement p) \<le> real_of_int (integration_improvement q)"
    by simp_all
  then show ?thesis
    unfolding linear_total_def by linarith
qed

lemma percentage_le_iff:
  "percentage_le p q \<longleftrightarrow> diminishing_returns (linear_total p) \<le> diminishing_returns (linear_total q)"
  by (simp add: percentage_le_def calculate_eq)

lemma scenario_body_Current:
  "scenario_body p (''Current'', n) =
     Some \<lparr>Scenario = ''Current'', Ridership = current_ridership p, Increase = 0\<rparr>"
  by (simp add: scenario_body_def calculate_eq)

lemma scenario_body_other:
  "name \<noteq> ''Current'' \<Longrightarrow> scenario_body p (name, pct) =
     Some \<lparr>Scenario = name,
           Ridership = py_int (real_of_int (current_ridership p) * (1 + real_of_int pct * 0.004)),
           Increase = real_of_int pct * 0.4\<rparr>"
  by (simp add: scenario_body_def)

lemma scenario_results_eq:
  "scenario_results p = Some
     [\<lparr>Scenario = ''Current'', Ridership = current_ridership p, Increase = 0\<rparr>,
      \<lparr>Scenario = ''Basic Improvement'',
        Ridership = py_int (real_of_int (current_ridership p) * (1 + 15 * 0.004)),
        Increase = 15 * 0.4\<rparr>,
      \<lparr>Scenario = ''Moderate Improvement'',
        Ridership = py_int (real_of_int (current_ridership p) * (1 + 35 * 0.004)),
        Increase = 35 * 0.4\<rparr>,
      \<lparr>Scenario = ''Comprehensive Improvement'',
        Ridership = py_int (real_of_int (current_ridership p) * (1 + 60 * 0.004)),
        Increase = 60 * 0.4\<rparr>]"
  by (simp add: scenario_results_def scenarios_def scenario_body_Current scenario_body_other)

section \<open>The claims\<close>

text \<open>
  C1. Each of the five raw impacts is the improvement percentage over 100 times the
  magnitude of the factor's coefficient in the table (0.5, 0.8, 0.3, 0.4, 0.6), for
  every input. The coefficients of wait time and cost are negative in the table, yet
  raising \<open>wait_reduction\<close> or \<open>cost_reduction\<close> by \<open>d\<close> raises the reported
  percentage of that factor by \<open>0.8 * d\<close> and \<open>0.4 * d\<close>.
\<close>

theorem raw_impacts_use_coefficient_magnitude:
  "ELASTICITIES ''feeder_frequency'' = Some 0.5
   \<and> ELASTICITIES ''last_mile_wait_time'' = Some (- 0.8)
   \<and> ELASTICITIES ''service_availability'' = Some 0.3
   \<and> ELASTICITIES ''feeder_cost'' = Some (- 0.4)
   \<and> ELASTICITIES ''integration_quality'' = Some 0.6
   \<and> individual_impacts p = Some
        (real_of_int (freq_improvement p) / 100 * \<bar>0.5\<bar>,
         real_of_int (wait_reduction p) / 100 * \<bar>- 0.8\<bar>,
         real_of_int (coverage_improvement p) / 100 * \<bar>0.3\<bar>,
         real_of_int (cost_reduction p) / 100 * \<bar>- 0.4\<bar>,
         real_of_int (integration_improvement p) / 100 * \<bar>0.6\<bar>)
   \<and> (\<exists>r r'. calculate_ridership_impact p = Some r
          \<and> calculate_ridership_impact (p\<lparr>wait_reduction := wait_reduction p + d\<rparr>) = Some r'
          \<and> wait_impact r' - wait_impact r = 0.8 * real_of_int d)
   \<and> (\<exists>r r'. calculate_ridership_impact p = Some r
          \<and> calculate_ridership_impact (p\<lparr>cost_reduction := cost_reduction p + d\<rparr>) = Some r'
          \<and> cost_impact r' - cost_impact r = 0.4 * real_of_int d)"
  by (simp add: individual_impacts_eq calculate_eq) (simp add: ELASTICITIES_def add_divide_distrib)

text \<open>
  C5. With all five improvement percentages 0 the function returns
  \<open>total_percentage = 0\<close>, \<open>new_ridership = current_ridership\<close> and
  \<open>absolute_increase = 0\<close> (and five zero percentages), for every integer
  \<open>current_ridership\<close>, hence for every non-negative one, and whatever the two
  baseline values are.
\<close>

theorem zero_improvements_change_nothing:
  "calculate_ridership_impact
     \<lparr>current_ridership = c, baseline_frequency = bf, baseline_wait = bw,
      freq_improvement = 0, wait_reduction = 0, coverage_improvement = 0,
      cost_reduction = 0, integration_improvement = 0\<rparr>
   = Some \<lparr>freq_impact = 0, wait_impact = 0, coverage_impact = 0, cost_impact = 0,
            integration_impact = 0, total_percentage = 0,
            new_ridership = c, absolute_increase = 0\<rparr>
   \<and> unclamped_total_impact
       \<lparr>current_ridership = c, baseline_frequency = bf, baseline_wait = bw,
        freq_improvement = 0, wait_reduction = 0, coverage_improvement = 0,
        cost_reduction = 0, integration_improvement = 0\<rparr> = Some 0"
  by (simp add: calculate_eq unclamped_eq linear_total_def diminishing_returns_def py_int_of_int)
    (simp add: py_int_def)

text \<open>
  C6. Raising any single one of the five improvement percentages by \<open>d \<ge> 0\<close>, with
  all other inputs unchanged, never lowers \<open>total_percentage\<close>. This holds for every
  input, in particular for those within the slider ranges.
\<close>

theorem total_percentage_monotone:
  "0 \<le> d \<Longrightarrow>
     percentage_le p (p\<lparr>freq_improvement := freq_improvement p + d\<rparr>)
     \<and> percentage_le p (p\<lparr>wait_reduction := wait_reduction p + d\<rparr>)
     \<and> percentage_le p (p\<lparr>coverage_improvement := coverage_improvement p + d\<rparr>)
     \<and> percentage_le p (p\<lparr>cost_reduction := cost_reduction p + d\<rparr>)
     \<and> percentage_le p (p\<lparr>integration_improvement := integration_improvement p + d\<rparr>)"
  unfolding percentage_le_iff
  by (intro conjI diminishing_returns_mono linear_total_mono) simp_all

theorem total_percentage_monotone_witness:
  "(0::int) \<le> 10
   \<and> percentage_le default_inputs (default_inputs\<lparr>freq_improvement := 60\<rparr>)
   \<and> percentage_le default_inputs (default_inputs\<lparr>wait_reduction := 40\<rparr>)
   \<and> percentage_le default_inputs (default_inputs\<lparr>coverage_improvement := 35\<rparr>)
   \<and> percentage_le default_inputs (default_inputs\<lparr>cost_reduction := 25\<rparr>)
   \<and> percentage_le default_inputs (default_inputs\<lparr>integration_improvement := 50\<rparr>)"
proof -
  have "(0::int) \<le> 10" by simp
  from total_percentage_monotone [OF this, of default_inputs] show ?thesis
    by (simp add: default_inputs_def)
qed

text \<open>
  C7. For a preset \<open>(name, pct)\<close> whose name is not Current, the loop body produces
  the row with \<open>% Increase = pct * 0.4\<close> and
  \<open>Ridership = int(current_ridership * (1 + pct * 0.004))\<close>; the rows of
  \<open>scenario_results\<close> other than the Current one are these rows for the presets of
  \<open>scenarios\<close> other than Current, in order. With \<open>current_ridership = 100000\<close> the
  Basic row (15) is 6.0 and 106000 and the Comprehensive row (60) is 24.0 and 124000.
\<close>

theorem preset_rows_use_simplified_formula:
  "(name \<noteq> ''Current'' \<longrightarrow>
      scenario_body p (name, pct) = Some
        \<lparr>Scenario = name,
         Ridership = py_int (real_of_int (current_ridership p) * (1 + real_of_int pct * 0.004)),
         Increase = real_of_int pct * 0.4\<rparr>)
   \<and> (\<exists>rows. scenario_results p = Some rows
         \<and> filter (\<lambda>r. Scenario r \<noteq> ''Current'') rows
             = map (\<lambda>(name, pct).
                  \<lparr>Scenario = name,
                   Ridership = py_int (real_of_int (current_ridership p)
                                         * (1 + real_of_int pct * 0.004)),
                   Increase = real_of_int pct * 0.4\<rparr>)
                 (filter (\<lambda>(name, pct). name \<noteq> ''Current'') scenarios))
   \<and> (current_ridership p = 100000 \<longrightarrow>
        (\<exists>rows. scenario_results p = Some rows
           \<and> rows ! 1 = \<lparr>Scenario = ''Basic Improvement'', Ridership = 106000, Increase = 6\<rparr>
           \<and> rows ! 3 = \<lparr>Scenario = ''Comprehensive Improvement'', Ridership = 124000,
                           Increase = 24\<rparr>))"
proof (intro conjI impI)
  assume "name \<noteq> ''Current''"
  then show "scenario_body p (name, pct) = Some
        \<lparr>Scenario = name,
         Ridership = py_int (real_of_int (current_ridership p) * (1 + real_of_int pct * 0.004)),
         Increase = real_of_int pct * 0.4\<rparr>"
    by (rule scenario_body_other)
next
  show "\<exists>rows. scenario_results p = Some rows
         \<and> filter (\<lambda>r. Scenario r \<noteq> ''Current'') rows
             = map (\<lambda>(name, pct).
                  \<lparr>Scenario = name,
                   Ridership = py_int (real_of_int (current_ridership p)
                                         * (1 + real_of_int pct * 0.004)),
                   Increase = real_of_int pct * 0.4\<rparr>)
                 (filter (\<lambda>(name, pct). name \<noteq> ''Current'') scenarios)"
    by (simp add: scenario_results_eq scenarios_def)
next
  assume "current_ridership p = 100000"
  then show "\<exists>rows. scenario_results p = Some rows
           \<and> rows ! 1 = \<lparr>Scenario = ''Basic Improvement'', Ridership = 106000, Increase = 6\<rparr>
           \<and> rows ! 3 = \<lparr>Scenario = ''Comprehensive Improvement'', Ridership = 124000,
                           Increase = 24\<rparr>"
    by (simp add: scenario_results_eq py_int_def)
qed

theorem preset_rows_use_simplified_formula_witness:
  "''Basic Improvement'' \<noteq> ''Current''
   \<and> scenario_body default_inputs (''Basic Improvement'', 15)
       = Some \<lparr>Scenario = ''Basic Improvement'', Ridership = 106000, Increase = 6\<rparr>
   \<and> current_ridership default_inputs = 100000
   \<and> the (scenario_results default_inputs) ! 3
       = \<lparr>Scenario = ''Comprehensive Improvement'', Ridership = 124000, Increase = 24\<rparr>"
proof -
  have c: "current_ridership default_inputs = 100000"
    by (simp add: default_inputs_def)
  have n: "''Basic Improvement'' \<noteq> ''Current''"
    by simp
  from preset_rows_use_simplified_formula [of "''Basic Improvement''" default_inputs 15] n c
  have "scenario_body default_inputs (''Basic Improvement'', 15) = Some
        \<lparr>Scenario = ''Basic Improvement'',
         Ridership = py_int (real_of_int 100000 * (1 + real_of_int 15 * 0.004)),
         Increase = real_of_int 15 * 0.4\<rparr>"
    and "\<exists>rows. scenario_results default_inputs = Some rows
           \<and> rows ! 3 = \<lparr>Scenario = ''Comprehensive Improvement'', Ridership = 124000,
                           Increase = 24\<rparr>"
    by auto
  then show ?thesis
    using c by (auto simp add: py_int_def)
qed

text \<open>
  C8. The row of the Current scenario is \<open>Ridership = current_ridership\<close> and
  \<open>% Increase = 0\<close> for every input. It is the first row of \<open>scenario_results\<close> and
  the only one named Current. Two runs with the same \<open>current_ridership\<close> have the
  same Current row, whatever their slider values and whatever
  \<open>calculate_ridership_impact\<close> returns for them.
\<close>

theorem current_row_ignores_sliders:
  "scenario_body p (''Current'', 0)
     = Some \<lparr>Scenario = ''Current'', Ridership = current_ridership p, Increase = 0\<rparr>
   \<and> (\<exists>rows. scenario_results p = Some rows
         \<and> rows ! 0 = \<lparr>Scenario = ''Current'', Ridership = current_ridership p, Increase = 0\<rparr>
         \<and> filter (\<lambda>r. Scenario r = ''Current'') rows
             = [\<lparr>Scenario = ''Current'', Ridership = current_ridership p, Increase = 0\<rparr>])
   \<and> (current_ridership p = current_ridership q \<longrightarrow>
        (\<exists>rows rows'. scenario_results p = Some rows \<and> scenario_results q = Some rows'
           \<and> rows ! 0 = rows' ! 0))"
  by (simp add: scenario_body_Current scenario_results_eq)

theorem current_row_ignores_sliders_witness:
  "current_ridership default_inputs
     = current_ridership (default_inputs\<lparr>freq_improvement := 0, wait_reduction := 0,
         coverage_improvement := 0, cost_reduction := 0, integration_improvement := 0\<rparr>)
   \<and> the (scenario_results default_inputs) ! 0
       = the (scenario_results (default_inputs\<lparr>freq_improvement := 0, wait_reduction := 0,
           coverage_improvement := 0, cost_reduction := 0, integration_improvement := 0\<rparr>)) ! 0
   \<and> calculate_ridership_impact default_inputs
       \<noteq> calculate_ridership_impact (default_inputs\<lparr>freq_improvement := 0, wait_reduction := 0,
           coverage_improvement := 0, cost_reduction := 0, integration_improvement := 0\<rparr>)"
proof -
  let ?q = "default_inputs\<lparr>freq_improvement := 0, wait_reduction := 0,
         coverage_improvement := 0, cost_reduction := 0, integration_improvement := 0\<rparr>"
  have c: "current_ridership default_inputs = current_ridership ?q"
    by simp
  with current_row_ignores_sliders [of default_inputs ?q]
  have "\<exists>rows rows'. scenario_results default_inputs = Some rows
          \<and> scenario_results ?q = Some rows' \<and> rows ! 0 = rows' ! 0"
    by blast
  then have "the (scenario_results default_inputs) ! 0 = the (scenario_results ?q) ! 0"
    by auto
  moreover have "calculate_ridership_impact default_inputs \<noteq> calculate_ridership_impact ?q"
    by (simp add: calculate_eq default_inputs_def)
  ultimately show ?thesis
    using c by blast
qed

text \<open>
  C9. Two inputs that agree on \<open>current_ridership\<close> and on the five improvement
  percentages, and differ in any way in \<open>baseline_frequency\<close> and \<open>baseline_wait\<close>,
  give the same result of \<open>calculate_ridership_impact\<close> and the same
  \<open>scenario_results\<close>; both are returned values, not raised errors.
\<close>

theorem baseline_inputs_are_dead:
  "current_ridership p = current_ridership q \<Longrightarrow>
   freq_improvement p = freq_improvement q \<Longrightarrow>
   wait_reduction p = wait_reduction q \<Longrightarrow>
   coverage_improvement p = coverage_improvement q \<Longrightarrow>
   cost_reduction p = cost_reduction q \<Longrightarrow>
   integration_improvement p = integration_improvement q \<Longrightarrow>
     calculate_ridership_impact p = calculate_ridership_impact q
     \<and> scenario_results p = scenario_results q
     \<and> calculate_ridership_impact p \<noteq> None
     \<and> scenario_results p \<noteq> None"
  by (simp add: calculate_eq scenario_results_eq linear_total_def)

theorem baseline_inputs_are_dead_witness:
  "default_inputs \<noteq> default_inputs\<lparr>baseline_frequency := 20, baseline_wait := 2\<rparr>
   \<and> calculate_ridership_impact default_inputs
       = calculate_ridership_impact (default_inputs\<lparr>baseline_frequency := 20, baseline_wait := 2\<rparr>)
   \<and> scenario_results default_inputs
       = scenario_results (default_inputs\<lparr>baseline_frequency := 20, baseline_wait := 2\<rparr>)
   \<and> calculate_ridership_impact default_inputs \<noteq> None"
proof -
  have "default_inputs \<noteq> default_inputs\<lparr>baseline_frequency := 20, baseline_wait := 2\<rparr>"
    by (simp add: default_inputs_def)
  moreover have "calculate_ridership_impact default_inputs
       = calculate_ridership_impact (default_inputs\<lparr>baseline_frequency := 20, baseline_wait := 2\<rparr>)
     \<and> scenario_results default_inputs
       = scenario_results (default_inputs\<lparr>baseline_frequency := 20, baseline_wait := 2\<rparr>)
     \<and> calculate_ridership_impact default_inputs \<noteq> None
     \<and> scenario_results default_inputs \<noteq> None"
    by (rule baseline_inputs_are_dead) simp_all
  ultimately show ?thesis
    by blast
qed

text \<open>
  C10. If \<open>current_ridership\<close> and the five improvement percentages are not negative
  (as within the slider ranges), then none of the five reported percentages is
  negative, \<open>total_percentage\<close> is not negative, \<open>new_ridership\<close> is at least
  \<open>current_ridership\<close> and \<open>absolute_increase\<close> is not negative.
\<close>

theorem in_range_results_nonnegative:
  "0 \<le> current_ridership p \<Longrightarrow>
   0 \<le> freq_improvement p \<Longrightarrow>
   0 \<le> wait_reduction p \<Longrightarrow>
   0 \<le> coverage_improvement p \<Longrightarrow>
   0 \<le> cost_reduction p \<Longrightarrow>
   0 \<le> integration_improvement p \<Longrightarrow>
     \<exists>r. calculate_ridership_impact p = Some r
       \<and> 0 \<le> freq_impact r \<and> 0 \<le> wait_impact r \<and> 0 \<le> coverage_impact r
       \<and> 0 \<le> cost_impact r \<and> 0 \<le> integration_impact r
       \<and> 0 \<le> total_percentage r
       \<and> current_ridership p \<le> new_ridership r
       \<and> 0 \<le> absolute_increase r"
proof -
  assume c: "0 \<le> current_ridership p"
    and f: "0 \<le> freq_improvement p" "0 \<le> wait_reduction p" "0 \<le> coverage_improvement p"
      "0 \<le> cost_reduction p" "0 \<le> integration_improvement p"
  let ?t = "diminishing_returns (linear_total p)"
  from f have t: "0 \<le> ?t"
    by (intro diminishing_returns_nonneg linear_total_nonneg)
  with c have grows: "current_ridership p \<le> py_int (real_of_int (current_ridership p) * (1 + ?t))"
    by (rule py_int_grows)
  from t have "py_int (real_of_int (current_ridership p) * (1 + ?t)
                 - real_of_int (current_ridership p))
      = py_int (real_of_int (current_ridership p) * (1 + ?t)) - current_ridership p"
    by (rule py_int_increase)
  with grows have "0 \<le> py_int (real_of_int (current_ridership p) * (1 + ?t)
                 - real_of_int (current_ridership p))"
    by simp
  with t grows f show ?thesis
    by (simp add: calculate_eq)
qed

theorem in_range_results_nonnegative_witness:
  "0 \<le> current_ridership default_inputs
   \<and> 0 \<le> freq_improvement default_inputs
   \<and> 0 \<le> wait_reduction default_inputs
   \<and> 0 \<le> coverage_improvement default_inputs
   \<and> 0 \<le> cost_reduction default_inputs
   \<and> 0 \<le> integration_improvement default_inputs
   \<and> 0 \<le> total_percentage (the (calculate_ridership_impact default_inputs))
   \<and> current_ridership default_inputs \<le> new_ridership (the (calculate_ridership_impact default_inputs))
   \<and> 0 \<le> absolute_increase (the (calculate_ridership_impact default_inputs))"
proof -
  have h: "0 \<le> current_ridership default_inputs" "0 \<le> freq_improvement default_inputs"
    "0 \<le> wait_reduction default_inputs" "0 \<le> coverage_improvement default_inputs"
    "0 \<le> cost_reduction default_inputs" "0 \<le> integration_improvement default_inputs"
    by (simp_all add: default_inputs_def)
  from in_range_results_nonnegative [OF h] h show ?thesis
    by auto
qed

end
